theory Spec2Isabelle
  imports Main "HOL-Library.Char_ord" "HOL-Library.List_Lexorder"
begin

section \<open>Python strings and integers\<close>

text \<open>
  A Python \<open>str\<close> is a sequence of code points. A \<^typ>\<open>char\<close> stands for the code
  point of the same number, so the strings of this development are the Python strings
  whose code points are below 256. Python's \<open>int\<close> is unbounded: \<^typ>\<open>int\<close>.
\<close>

datatype py_error = ValueError

definition is_decimal :: "char \<Rightarrow> bool" where
  \<comment> \<open>the characters \<open>int()\<close> reads as decimal digits (category Nd): below 256 only 0 to 9\<close>
  "is_decimal c = (48 \<le> (of_char c :: nat) \<and> (of_char c :: nat) \<le> 57)"

definition digit_value :: "char \<Rightarrow> nat" where
  "digit_value c = of_char c - 48"

definition char_isdigit :: "char \<Rightarrow> bool" where
  \<comment> \<open>\<open>str.isdigit\<close> on one character: the decimal digits and the superscript digits
      U+00B2, U+00B3 and U+00B9, which \<open>int()\<close> rejects\<close>
  "char_isdigit c = (is_decimal c \<or> c = CHR 0xB2 \<or> c = CHR 0xB3 \<or> c = CHR 0xB9)"

definition isdigit :: "string \<Rightarrow> bool" where
  \<comment> \<open>\<open>s.isdigit()\<close>: at least one character, and all of them digits\<close>
  "isdigit s = (s \<noteq> [] \<and> list_all char_isdigit s)"

definition isspace :: "char \<Rightarrow> bool" where
  \<comment> \<open>the characters \<open>str.strip()\<close> and \<open>int()\<close> treat as whitespace\<close>
  "isspace c = (c \<in> set [CHR 0x09, CHR 0x0A, CHR 0x0B, CHR 0x0C, CHR 0x0D, CHR 0x1C,
                           CHR 0x1D, CHR 0x1E, CHR 0x1F, CHR 0x20, CHR 0x85, CHR 0xA0])"

definition strip :: "string \<Rightarrow> string" where
  "strip s = rev (dropWhile isspace (rev (dropWhile isspace s)))"

fun split_on :: "char \<Rightarrow> string \<Rightarrow> string list" where
  \<comment> \<open>\<open>s.split(sep)\<close> for a separator of one character\<close>
  "split_on sep [] = [[]]"
| "split_on sep (c # cs) =
     (if c = sep then [] # split_on sep cs
      else (case split_on sep cs of p # ps \<Rightarrow> (c # p) # ps | [] \<Rightarrow> [[c]]))"

fun int_body :: "nat \<Rightarrow> string \<Rightarrow> nat option" where
  \<comment> \<open>the digits after the first one; a single underscore may stand between two digits\<close>
  "int_body acc [] = Some acc"
| "int_body acc [c] = (if is_decimal c then Some (acc * 10 + digit_value c) else None)"
| "int_body acc (c # d # ds) =
     (if is_decimal c then int_body (acc * 10 + digit_value c) (d # ds)
      else if c = CHR ''_'' \<and> is_decimal d then int_body (acc * 10 + digit_value d) ds
      else None)"

definition int_digits :: "string \<Rightarrow> nat option" where
  "int_digits s = (case s of [] \<Rightarrow> None
     | c # cs \<Rightarrow> if is_decimal c then int_body (digit_value c) cs else None)"

definition py_int :: "string \<Rightarrow> py_error + int" where
  \<comment> \<open>\<open>int(s)\<close> in base 10: surrounding whitespace, an optional sign, then the digits\<close>
  "py_int s =
     (case strip s of
        [] \<Rightarrow> Inl ValueError
      | c # cs \<Rightarrow>
          if c = CHR ''-'' then
            (case int_digits cs of None \<Rightarrow> Inl ValueError | Some n \<Rightarrow> Inr (- int n))
          else if c = CHR ''+'' then
            (case int_digits cs of None \<Rightarrow> Inl ValueError | Some n \<Rightarrow> Inr (int n))
          else
            (case int_digits (c # cs) of None \<Rightarrow> Inl ValueError | Some n \<Rightarrow> Inr (int n)))"

definition digits_value :: "string \<Rightarrow> nat" where
  \<comment> \<open>the number a string of decimal digits denotes\<close>
  "digits_value s = foldl (\<lambda>a c. a * 10 + digit_value c) 0 s"

definition digit_char :: "nat \<Rightarrow> char" where
  "digit_char d = char_of (48 + d)"

fun dec :: "nat \<Rightarrow> string" where
  \<comment> \<open>the decimal digits of a natural number, as \<open>str(n)\<close> writes them\<close>
  "dec n = (if n < 10 then [digit_char n] else dec (n div 10) @ [digit_char (n mod 10)])"

declare dec.simps [simp del]

definition zfill :: "nat \<Rightarrow> string \<Rightarrow> string" where
  "zfill w s = replicate (w - length s) CHR ''0'' @ s"

definition fmt_02d :: "int \<Rightarrow> string" where
  \<comment> \<open>the format \<open>{n:02d}\<close>: the sign counts in the width of two\<close>
  "fmt_02d n = (if n < 0 then CHR ''-'' # zfill 1 (dec (nat (- n))) else zfill 2 (dec (nat n)))"

section \<open>Formatting and parsing durations\<close>

definition format_time :: "int \<Rightarrow> string" where
  \<comment> \<open>\<open>_format_time\<close>; \<open>//\<close> and \<open>%\<close> round towards minus infinity, as \<open>div\<close> and \<open>mod\<close> do\<close>
  "format_time seconds =
     (let hours = seconds div 3600;
          minutes = (seconds mod 3600) div 60;
          secs = seconds mod 60
      in if hours > 0 then fmt_02d hours @ '':'' @ fmt_02d minutes @ '':'' @ fmt_02d secs
         else fmt_02d minutes @ '':'' @ fmt_02d secs)"

definition parse_time :: "string \<Rightarrow> py_error + int" where
  \<comment> \<open>\<open>_parse_time\<close>; \<open>int()\<close> raises on a field that is not a number\<close>
  "parse_time time_str =
     (let parts = split_on CHR '':'' time_str in
      if length parts = 2 then
        (case py_int (parts ! 0) of Inl e \<Rightarrow> Inl e | Inr a \<Rightarrow>
           (case py_int (parts ! 1) of Inl e \<Rightarrow> Inl e | Inr b \<Rightarrow> Inr (a * 60 + b)))
      else if length parts = 3 then
        (case py_int (parts ! 0) of Inl e \<Rightarrow> Inl e | Inr a \<Rightarrow>
           (case py_int (parts ! 1) of Inl e \<Rightarrow> Inl e | Inr b \<Rightarrow>
              (case py_int (parts ! 2) of Inl e \<Rightarrow> Inl e
               | Inr c \<Rightarrow> Inr (a * 3600 + b * 60 + c))))
      else Inr 0)"

definition startswith :: "string \<Rightarrow> string \<Rightarrow> bool" where
  \<comment> \<open>\<open>s.startswith(p)\<close>\<close>
  "startswith s p = (take (length p) s = p)"

fun contains :: "string \<Rightarrow> string \<Rightarrow> bool" where
  \<comment> \<open>\<open>sub in s\<close>\<close>
  "contains [] sub = (sub = [])"
| "contains (c # cs) sub = (startswith (c # cs) sub \<or> contains cs sub)"

definition newline :: string where
  "newline = [CHR 0x0A]"

section \<open>Dates\<close>

text \<open>
  The \<open>timestamp\<close> of a log entry is the text \<open>d.isoformat()\<close> of a \<open>datetime\<close> \<open>d\<close>, written
  by \<open>datetime.now().isoformat()\<close> or \<open>datetime.strptime(...).isoformat()\<close> and read again by
  \<open>datetime.fromisoformat\<close>, which gives \<open>d\<close> back. The model keeps \<open>d\<close> itself.
\<close>

record datetime =
  year :: nat
  month :: nat
  day :: nat
  hour :: nat
  minute :: nat
  second :: nat
  microsecond :: nat

definition month_names :: "string list" where
  "month_names = [''January'', ''February'', ''March'', ''April'', ''May'', ''June'', ''July'',
                  ''August'', ''September'', ''October'', ''November'', ''December'']"

definition strftime_dBY :: "datetime \<Rightarrow> string" where
  \<comment> \<open>\<open>d.strftime('%d %B %Y')\<close> in the English locale; the year has four digits\<close>
  "strftime_dBY d =
     zfill 2 (dec (day d)) @ '' '' @ month_names ! (month d - 1) @ '' '' @ zfill 4 (dec (year d))"

definition lower :: "char \<Rightarrow> char" where
  "lower c = (if 65 \<le> (of_char c :: nat) \<and> (of_char c :: nat) \<le> 90
              then char_of ((of_char c :: nat) + 32) else c)"

fun tokens_acc :: "string \<Rightarrow> string \<Rightarrow> string list" where
  \<comment> \<open>the maximal runs of characters that are not whitespace\<close>
  "tokens_acc cur [] = (if cur = [] then [] else [rev cur])"
| "tokens_acc cur (c # cs) =
     (if isspace c then (if cur = [] then tokens_acc [] cs else rev cur # tokens_acc [] cs)
      else tokens_acc (c # cur) cs)"

definition is_leap :: "nat \<Rightarrow> bool" where
  "is_leap y = (y mod 4 = 0 \<and> (y mod 100 \<noteq> 0 \<or> y mod 400 = 0))"

definition days_in_month :: "nat \<Rightarrow> nat \<Rightarrow> nat" where
  "days_in_month y m =
     (if m = 2 then (if is_leap y then 29 else 28)
      else if m \<in> set [4, 6, 9, 11] then 30 else 31)"

fun find_index_from :: "nat \<Rightarrow> string \<Rightarrow> string list \<Rightarrow> nat option" where
  "find_index_from i x [] = None"
| "find_index_from i x (y # ys) = (if x = y then Some i else find_index_from (Suc i) x ys)"

definition strptime_dBY :: "string \<Rightarrow> datetime option" where
  \<comment> \<open>\<open>datetime.strptime(s, '%d %B %Y')\<close> on a text without surrounding whitespace, as
      \<open>load_data\<close> and \<open>_sort_dates\<close> call it; \<open>None\<close> is the \<open>ValueError\<close>. The day is one or
      two digits from 1 to 31, the month a full English name in any case, the year four
      digits, each separated by whitespace, and the date must exist.\<close>
  "strptime_dBY s =
     (case tokens_acc [] s of
        [d, b, y] \<Rightarrow>
          if list_all is_decimal d \<and> length d \<le> 2 \<and> 1 \<le> digits_value d \<and> digits_value d \<le> 31
             \<and> list_all is_decimal y \<and> length y = 4 \<and> 1 \<le> digits_value y
          then (case find_index_from 1 (map lower b) (map (map lower) month_names) of
                  None \<Rightarrow> None
                | Some m \<Rightarrow>
                    if digits_value d \<le> days_in_month (digits_value y) m
                    then Some \<lparr>year = digits_value y, month = m, day = digits_value d,
                               hour = 0, minute = 0, second = 0, microsecond = 0\<rparr>
                    else None)
          else None
      | _ \<Rightarrow> None)"

definition datetime_min :: datetime where
  "datetime_min = \<lparr>year = 1, month = 1, day = 1, hour = 0, minute = 0, second = 0,
                    microsecond = 0\<rparr>"

definition date_key :: "string \<Rightarrow> nat" where
  \<comment> \<open>the sort key of \<open>_sort_dates\<close>: the parsed date (a midnight, so year, month and day
      order it), or \<open>datetime.min\<close> when the text does not parse\<close>
  "date_key date_str =
     (let d = (case strptime_dBY date_str of Some d \<Rightarrow> d | None \<Rightarrow> datetime_min)
      in (year d * 13 + month d) * 32 + day d)"

definition sort_dates :: "string list \<Rightarrow> string list" where
  \<comment> \<open>\<open>_sort_dates\<close>: \<open>sorted(..., key=date_key, reverse=True)\<close> is stable, equal keys keep
      their order\<close>
  "sort_dates date_strings = rev (sort_key date_key (rev date_strings))"

section \<open>The application state\<close>

record entry =
  exercise :: string
  time :: string
  bpm :: string
  timestamp :: datetime

record catalog =
  root :: "string list"
  folders :: "(string \<times> string list) list"
  info :: "(string \<times> string \<times> string) list"

datatype event =
  ShowError string string
| ShowInfo string string
| ShowWarning string string
| DataFileWritten

record app =
  workout_data :: "entry list"
  current_exercise :: string
  timer_running :: bool
  elapsed_time :: int
  metronome_running :: bool
  metronome_bpm :: int
  metronome_was_running_before_pause :: bool
  exercises_structure :: catalog
  exercises :: "string list"
  time_label :: string
  total_time_label :: string
  data_file :: "string option"
  events :: "event list"

text \<open>
  \<open>self\<close> is the record \<^typ>\<open>app\<close>. A method takes the state and returns the new one; a
  method that can raise or that returns a value returns the state together with the
  outcome, since an exception leaves the fields as they were mutated so far. The dicts
  of \<open>exercises_structure\<close> are association lists in insertion order. \<open>data_file\<close> is the
  text of the markdown file (\<open>None\<close>: no file), \<open>events\<close> the message boxes shown and the
  writes of the file, latest last; a write does not fail in the model.
\<close>

section \<open>The workout log\<close>

fun group_add :: "string \<Rightarrow> entry \<Rightarrow> (string \<times> entry list) list \<Rightarrow> (string \<times> entry list) list" where
  \<comment> \<open>\<open>days_data.setdefault(date, []).append(data)\<close>\<close>
  "group_add date data [] = [(date, [data])]"
| "group_add date data ((k, vs) # rest) =
     (if k = date then (k, vs @ [data]) # rest else (k, vs) # group_add date data rest)"

definition group_data_by_days :: "entry list \<Rightarrow> (string \<times> entry list) list" where
  \<comment> \<open>\<open>_group_data_by_days\<close>\<close>
  "group_data_by_days wd = foldl (\<lambda>days_data data. group_add (strftime_dBY (timestamp data)) data days_data) [] wd"

definition table_row :: "entry \<Rightarrow> string" where
  "table_row data = ''| '' @ exercise data @ '' | '' @ time data @ '' | '' @ bpm data @ '' |'' @ newline"

definition day_block :: "(string \<times> entry list) list \<Rightarrow> string \<Rightarrow> string" where
  "day_block days_data date =
     ''## '' @ date @ newline @ newline
     @ ''| Exercise Name | Time  | BPM |'' @ newline
     @ ''| ------------------- | ------ | --- |'' @ newline
     @ concat (map table_row (case map_of days_data date of Some ds \<Rightarrow> ds | None \<Rightarrow> []))
     @ newline"

definition render_data :: "entry list \<Rightarrow> string" where
  \<comment> \<open>the text \<open>save_data\<close> writes\<close>
  "render_data wd =
     (let days_data = group_data_by_days wd in
      ''# Guitar Exercises'' @ newline @ newline
      @ (if days_data = [] then ''Workout history is empty.'' @ newline
         else concat (map (day_block days_data) (sort_dates (map fst days_data)))))"

definition save_data :: "app \<Rightarrow> app" where
  "save_data s = s\<lparr>data_file := Some (render_data (workout_data s)),
                   events := events s @ [DataFileWritten]\<rparr>"

fun load_lines :: "datetime \<Rightarrow> string option \<Rightarrow> string list \<Rightarrow> entry list" where
  \<comment> \<open>the loop of \<open>load_data\<close> over the lines, with \<open>current_date\<close>; \<open>now\<close> is
      \<open>datetime.now()\<close>\<close>
  "load_lines now current_date [] = []"
| "load_lines now current_date (line # lines) =
     (if startswith line ''## '' then load_lines now (Some (strip (drop 3 line))) lines
      else if startswith line ''| '' \<and> current_date \<noteq> None \<and> current_date \<noteq> Some []
              \<and> \<not> startswith line ''| ---'' \<and> \<not> contains line ''BPM'' then
        (let parts = split_on CHR ''|'' line in
         if length parts \<ge> 4 then
           (let ex = strip (parts ! 1) in
            if ex \<noteq> [] \<and> \<not> startswith ex ''-'' \<and> ex \<noteq> ''Exercise Name'' then
              \<lparr>exercise = ex, time = strip (parts ! 2), bpm = strip (parts ! 3),
               timestamp = (case current_date of None \<Rightarrow> now
                            | Some cd \<Rightarrow> (case strptime_dBY cd of Some d \<Rightarrow> d | None \<Rightarrow> now))\<rparr>
              # load_lines now current_date lines
            else load_lines now current_date lines)
         else load_lines now current_date lines)
      else load_lines now current_date lines)"

definition load_data :: "datetime \<Rightarrow> app \<Rightarrow> app" where
  "load_data now s =
     (case data_file s of
        None \<Rightarrow> s
      | Some content \<Rightarrow> s\<lparr>workout_data := load_lines now None (split_on CHR 0x0A content)\<rparr>)"

section \<open>The session timer\<close>

definition update_timer :: "app \<Rightarrow> app" where
  \<comment> \<open>one tick: the label shows the elapsed time, which then grows by one\<close>
  "update_timer s =
     (if timer_running s
      then s\<lparr>time_label := format_time (elapsed_time s), elapsed_time := elapsed_time s + 1\<rparr>
      else s)"

definition start_timer :: "app \<Rightarrow> app" where
  \<comment> \<open>\<open>start_timer\<close>, reached with \<open>current_exercise\<close> chosen: the first tick runs at once\<close>
  "start_timer s = update_timer (s\<lparr>timer_running := True, elapsed_time := 0\<rparr>)"

definition start_selected_exercise :: "string \<Rightarrow> app \<Rightarrow> app" where
  "start_selected_exercise chosen s =
     (if chosen \<noteq> [] then start_timer (s\<lparr>current_exercise := chosen\<rparr>)
      else s\<lparr>events := events s @ [ShowWarning ''Warning'' ''Select Exercise!'']\<rparr>)"

definition stop_metronome :: "app \<Rightarrow> app" where
  \<comment> \<open>\<open>_stop_metronome\<close>\<close>
  "stop_metronome s = s\<lparr>metronome_running := False\<rparr>"

definition pause_timer :: "app \<Rightarrow> app" where
  \<comment> \<open>pause or resume; resuming starts the metronome thread again if it ran before\<close>
  "pause_timer s =
     (if timer_running s then
        (let s1 = s\<lparr>timer_running := False,
                     metronome_was_running_before_pause := metronome_running s\<rparr>
         in if metronome_running s1 then stop_metronome s1 else s1)
      else
        (let s1 = update_timer (s\<lparr>timer_running := True\<rparr>)
         in if metronome_was_running_before_pause s1 \<and> \<not> metronome_running s1
            then s1\<lparr>metronome_running := True, metronome_was_running_before_pause := False\<rparr>
            else s1))"


definition cancel_exercise :: "app \<Rightarrow> app" where
  "cancel_exercise s = stop_metronome (s\<lparr>timer_running := False\<rparr>)"

definition create_exercise_data :: "datetime \<Rightarrow> string \<Rightarrow> app \<Rightarrow> entry" where
  \<comment> \<open>\<open>_create_exercise_data\<close>; \<open>now\<close> is \<open>datetime.now()\<close>\<close>
  "create_exercise_data now b s =
     \<lparr>exercise = current_exercise s, time = format_time (elapsed_time s - 1), bpm = b,
      timestamp = now\<rparr>"

fun sum_times :: "entry list \<Rightarrow> py_error + int" where
  \<comment> \<open>\<open>sum(self._parse_time(data['time']) for data in ...)\<close>\<close>
  "sum_times [] = Inr 0"
| "sum_times (data # rest) =
     (case parse_time (time data) of
        Inl e \<Rightarrow> Inl e
      | Inr t \<Rightarrow> (case sum_times rest of Inl e \<Rightarrow> Inl e | Inr r \<Rightarrow> Inr (t + r)))"

definition update_total_time_display :: "app \<Rightarrow> app \<times> (py_error + unit)" where
  \<comment> \<open>the label gets the total of \<open>get_total_training_time\<close> (after a clock sign, which
      is not a character below 256 and is left out)\<close>
  "update_total_time_display s =
     (case sum_times (workout_data s) of
        Inl e \<Rightarrow> (s, Inl e)
      | Inr total_seconds \<Rightarrow>
          (s\<lparr>total_time_label := ''Total Time: '' @ format_time total_seconds\<rparr>, Inr ()))"

definition save_workout_data :: "datetime \<Rightarrow> string \<Rightarrow> app \<Rightarrow> app \<times> (py_error + bool)" where
  \<comment> \<open>\<open>_save_workout_data(bpm)\<close>, the body of finish and of save-and-continue\<close>
  "save_workout_data now b s =
     (let s1 = stop_metronome s in
      if \<not> isdigit b then
        (s1\<lparr>events := events s1 @ [ShowError ''Error'' ''BPM must be a number!'']\<rparr>, Inr False)
      else
        (let s2 = save_data (s1\<lparr>workout_data := workout_data s1 @ [create_exercise_data now b s1]\<rparr>)
         in case update_total_time_display s2 of
              (s3, Inl e) \<Rightarrow> (s3, Inl e)
            | (s3, Inr u) \<Rightarrow> (s3, Inr True)))"

section \<open>Deleting a day\<close>

fun remove_each :: "entry list \<Rightarrow> entry list \<Rightarrow> entry list \<times> (py_error + unit)" where
  \<comment> \<open>\<open>for workout in day_workouts: self.workout_data.remove(workout)\<close>; \<open>list.remove\<close>
      deletes the first equal element and raises when there is none\<close>
  "remove_each [] wd = (wd, Inr ())"
| "remove_each (workout # rest) wd =
     (if workout \<in> set wd then remove_each rest (remove1 workout wd) else (wd, Inl ValueError))"

definition delete_day :: "string \<Rightarrow> bool \<Rightarrow> app \<Rightarrow> app \<times> (py_error + unit)" where
  \<comment> \<open>\<open>answer\<close> is what the user answers to the confirmation \<open>askyesno\<close>\<close>
  "delete_day date answer s =
     (let day_workouts = filter (\<lambda>d. strftime_dBY (timestamp d) = date) (workout_data s) in
      if day_workouts = [] then
        (s\<lparr>events := events s @ [ShowInfo ''Information'' ''No workouts found for this day!'']\<rparr>,
         Inr ())
      else if answer then
        (case remove_each day_workouts (workout_data s) of
           (wd, Inl e) \<Rightarrow> (s\<lparr>workout_data := wd\<rparr>, Inl e)
         | (wd, Inr u) \<Rightarrow>
             (case update_total_time_display (save_data (s\<lparr>workout_data := wd\<rparr>)) of
                (s2, Inl e) \<Rightarrow> (s2, Inl e)
              | (s2, Inr u) \<Rightarrow>
                  (s2\<lparr>events := events s2 @ [ShowInfo ''Success''
                         (''Day '' @ date @ '' deleted! Deleted '' @ dec (length day_workouts)
                          @ '' workouts.'')]\<rparr>, Inr ())))
      else (s, Inr ()))"

section \<open>Statistics\<close>

record stats =
  total_sessions :: nat
  total_time_seconds :: int
  total_time_formatted :: string
  avg_bpm :: int

fun stats_loop :: "entry list \<Rightarrow> int \<times> int \<times> int \<Rightarrow> py_error + int \<times> int \<times> int" where
  \<comment> \<open>the loop of \<open>get_exercise_stats\<close> over (total_seconds, total_bpm, valid_bpm_count);
      a \<open>ValueError\<close> of \<open>int()\<close> is caught and the entry's bpm skipped\<close>
  "stats_loop [] acc = Inr acc"
| "stats_loop (data # rest) (total_seconds, total_bpm, valid_bpm_count) =
     (case parse_time (time data) of
        Inl e \<Rightarrow> Inl e
      | Inr t \<Rightarrow>
          if isdigit (bpm data) then
            (case py_int (bpm data) of
               Inl e \<Rightarrow> stats_loop rest (total_seconds + t, total_bpm, valid_bpm_count)
             | Inr v \<Rightarrow> stats_loop rest (total_seconds + t, total_bpm + v, valid_bpm_count + 1))
          else stats_loop rest (total_seconds + t, total_bpm, valid_bpm_count))"

definition get_exercise_stats :: "string \<Rightarrow> app \<Rightarrow> py_error + stats" where
  "get_exercise_stats exercise_name s =
     (let exercise_data = filter (\<lambda>data. exercise data = exercise_name) (workout_data s) in
      if exercise_data = [] then
        Inr \<lparr>total_sessions = 0, total_time_seconds = 0, total_time_formatted = ''00:00'',
             avg_bpm = 0\<rparr>
      else
        (case stats_loop exercise_data (0, 0, 0) of
           Inl e \<Rightarrow> Inl e
         | Inr (total_seconds, total_bpm, valid_bpm_count) \<Rightarrow>
             Inr \<lparr>total_sessions = length exercise_data, total_time_seconds = total_seconds,
                  total_time_formatted = format_time total_seconds,
                  avg_bpm = (if valid_bpm_count > 0 then total_bpm div valid_bpm_count else 0)\<rparr>))"

fun best_loop :: "string \<Rightarrow> entry list \<Rightarrow> int \<Rightarrow> py_error + int" where
  \<comment> \<open>the loop of \<open>get_best_bpm\<close>; here a \<open>ValueError\<close> of \<open>int()\<close> is not caught\<close>
  "best_loop exercise_name [] best = Inr best"
| "best_loop exercise_name (data # rest) best =
     (if exercise data = exercise_name \<and> isdigit (bpm data) then
        (case py_int (bpm data) of
           Inl e \<Rightarrow> Inl e
         | Inr v \<Rightarrow> best_loop exercise_name rest (max best v))
      else best_loop exercise_name rest best)"

definition get_best_bpm :: "string \<Rightarrow> app \<Rightarrow> py_error + int" where
  "get_best_bpm exercise_name s = best_loop exercise_name (workout_data s) 0"

definition numeric_bpms :: "string \<Rightarrow> entry list \<Rightarrow> int list" where
  \<comment> \<open>the numeric bpm values among the entries of an exercise: the claim's words\<close>
  "numeric_bpms exercise_name wd =
     List.map_filter
       (\<lambda>data. if exercise data = exercise_name \<and> isdigit (bpm data)
                then (case py_int (bpm data) of Inr v \<Rightarrow> Some v | Inl e \<Rightarrow> None) else None)
       wd"

definition int_readable :: "entry list \<Rightarrow> bool" where
  \<comment> \<open>every bpm text that passes \<open>isdigit\<close> is made of decimal digits, which \<open>int()\<close> reads\<close>
  "int_readable wd = list_all (\<lambda>data. isdigit (bpm data) \<longrightarrow> list_all is_decimal (bpm data)) wd"

section \<open>The metronome tempo\<close>

definition change_bpm :: "int \<Rightarrow> app \<Rightarrow> app" where
  "change_bpm delta s =
     (let new_bpm = metronome_bpm s + delta in
      if 30 \<le> new_bpm \<and> new_bpm \<le> 200 then s\<lparr>metronome_bpm := new_bpm\<rparr> else s)"

section \<open>The exercise catalog\<close>

text \<open>
  \<open>exercises_structure\<close> holds the list \<open>root\<close>, the dict \<open>folders\<close> from a folder name to its
  list of exercise names, and the dict \<open>info\<close>. Every operation below ends by writing the
  structure to its JSON file and redrawing the tree; neither changes the structure, and
  they are left out.
\<close>

fun dict_set :: "'k \<Rightarrow> 'v \<Rightarrow> ('k \<times> 'v) list \<Rightarrow> ('k \<times> 'v) list" where
  \<comment> \<open>\<open>d[k] = v\<close>: a key already there keeps its place, a new one goes last\<close>
  "dict_set k v [] = [(k, v)]"
| "dict_set k v ((k', v') # rest) =
     (if k' = k then (k', v) # rest else (k', v') # dict_set k v rest)"

definition dict_pop :: "'k \<Rightarrow> ('k \<times> 'v) list \<Rightarrow> ('k \<times> 'v) list" where
  "dict_pop k d = filter (\<lambda>(k', v). k' \<noteq> k) d"

definition map_values :: "('v \<Rightarrow> 'v) \<Rightarrow> ('k \<times> 'v) list \<Rightarrow> ('k \<times> 'v) list" where
  \<comment> \<open>\<open>for items in d.values(): ...\<close> where the body mutates \<open>items\<close>\<close>
  "map_values f d = map (\<lambda>(k, v). (k, f v)) d"

fun replace_first :: "'a \<Rightarrow> 'a \<Rightarrow> 'a list \<Rightarrow> 'a list" where
  \<comment> \<open>\<open>for i, n in enumerate(xs): if n == old: xs[i] = new; break\<close>\<close>
  "replace_first old new [] = []"
| "replace_first old new (n # ns) = (if n = old then new # ns else n # replace_first old new ns)"

definition flatten_exercises :: "app \<Rightarrow> string list" where
  \<comment> \<open>the sorted set of all names in the root and in the folders\<close>
  "flatten_exercises s =
     sort (remdups (root (exercises_structure s)
                    @ concat (map snd (folders (exercises_structure s)))))"

definition create_folder :: "string \<Rightarrow> app \<Rightarrow> app" where
  \<comment> \<open>the argument is the text of the entry field\<close>
  "create_folder text s =
     (let folder_name = strip text; c = exercises_structure s in
      if folder_name = [] then s
      else if folder_name \<notin> set (map fst (folders c))
      then s\<lparr>exercises_structure := c\<lparr>folders := folders c @ [(folder_name, [])]\<rparr>\<rparr>
      else s)"

definition add_now :: "string \<Rightarrow> string \<Rightarrow> string \<Rightarrow> string \<Rightarrow> app \<Rightarrow> app" where
  \<comment> \<open>the Add button of the dialog: name, folder choice (\<open>Root\<close> or a folder), link, note\<close>
  "add_now name_text folder link_text note_text s =
     (let name = strip name_text; c = exercises_structure s in
      if name = [] then s\<lparr>events := events s @ [ShowWarning ''Warning'' ''Enter exercise name!'']\<rparr>
      else if name \<in> set (flatten_exercises s)
      then s\<lparr>events := events s @ [ShowWarning ''Warning'' ''Such exercise already exists!'']\<rparr>
      else
        (let c1 = (if folder = ''Root'' then c\<lparr>root := root c @ [name]\<rparr>
                   else c\<lparr>folders := dict_set folder
                           ((case map_of (folders c) folder of Some items \<Rightarrow> items | None \<Rightarrow> [])
                            @ [name]) (folders c)\<rparr>);
             c2 = c1\<lparr>info := dict_set name (strip link_text, strip note_text) (info c1)\<rparr>;
             s1 = s\<lparr>exercises_structure := c2\<rparr>
         in s1\<lparr>exercises := flatten_exercises s1\<rparr>))"

definition move_confirm :: "string \<Rightarrow> string \<Rightarrow> app \<Rightarrow> app" where
  \<comment> \<open>\<open>move_selected_to_folder.confirm\<close>: \<open>text\<close> is the selected tree item, \<open>folder\<close> the
      chosen folder; \<open>list.remove\<close> deletes the first occurrence\<close>
  "move_confirm text folder s =
     (let c = exercises_structure s;
          c1 = c\<lparr>root := remove1 text (root c)\<rparr>;
          c2 = c1\<lparr>folders := map_values (remove1 text) (folders c1)\<rparr>;
          folder_list = (case map_of (folders c2) folder of Some items \<Rightarrow> items | None \<Rightarrow> []);
          c3 = c2\<lparr>folders := dict_set folder
                   (if text \<notin> set folder_list then folder_list @ [text] else folder_list)
                   (folders c2)\<rparr>;
          s1 = s\<lparr>exercises_structure := c3\<rparr>
      in s1\<lparr>exercises := flatten_exercises s1\<rparr>)"

definition do_rename :: "string \<Rightarrow> string \<Rightarrow> app \<Rightarrow> app" where
  \<comment> \<open>\<open>rename_selected_exercise\<close> with its \<open>do_rename\<close>: \<open>old_name\<close> is the selected tree item,
      \<open>new_text\<close> the text typed. A folder node starts with a folder sign, which is not a
      character below 256, so of the first guard only \<open>All Exercises\<close> is left.\<close>
  "do_rename old_name new_text s =
     (if old_name = ''All Exercises'' then s
      else
        (let new_name = strip new_text in
         if new_name = [] \<or> new_name = old_name then s
         else
           (let c = exercises_structure s;
                c1 = c\<lparr>root := replace_first old_name new_name (root c)\<rparr>;
                c2 = c1\<lparr>folders := map_values (replace_first old_name new_name) (folders c1)\<rparr>;
                c3 = (case map_of (info c2) old_name of
                        Some i \<Rightarrow> c2\<lparr>info := dict_set new_name i (dict_pop old_name (info c2))\<rparr>
                      | None \<Rightarrow> c2);
                s1 = s\<lparr>exercises_structure := c3\<rparr>
            in s1\<lparr>exercises := flatten_exercises s1\<rparr>)))"

definition delete_exercise :: "string \<Rightarrow> bool \<Rightarrow> app \<Rightarrow> app" where
  \<comment> \<open>\<open>answer\<close> is what the user answers to the confirmation\<close>
  "delete_exercise ex answer s =
     (if answer then
        (let c = exercises_structure s;
             c1 = c\<lparr>root := remove1 ex (root c)\<rparr>;
             c2 = c1\<lparr>folders := map_values (remove1 ex) (folders c1)\<rparr>;
             c3 = c2\<lparr>info := dict_pop ex (info c2)\<rparr>;
             s1 = s\<lparr>exercises_structure := c3\<rparr>
         in s1\<lparr>exercises := flatten_exercises s1\<rparr>)
      else s)"

datatype catalog_op =
  CreateFolder string
| AddExercise string string string string
| Move string string
| Rename string string
| Delete string

fun apply_op :: "app \<Rightarrow> catalog_op \<Rightarrow> app" where
  "apply_op s (CreateFolder text) = create_folder text s"
| "apply_op s (AddExercise name_text folder link_text note_text) =
     add_now name_text folder link_text note_text s"
| "apply_op s (Move text folder) = move_confirm text folder s"
| "apply_op s (Rename old_name new_text) = do_rename old_name new_text s"
| "apply_op s (Delete ex) = delete_exercise ex True s"

definition run_ops :: "catalog_op list \<Rightarrow> app \<Rightarrow> app" where
  "run_ops ops s = foldl apply_op s ops"

definition containers :: "catalog \<Rightarrow> string list list" where
  \<comment> \<open>the root list and the list of every folder\<close>
  "containers c = root c # map snd (folders c)"

definition holders :: "catalog \<Rightarrow> string \<Rightarrow> nat" where
  \<comment> \<open>in how many containers a name occurs\<close>
  "holders c name = length (filter (\<lambda>items. name \<in> set items) (containers c))"

definition single_location :: "catalog \<Rightarrow> bool" where
  \<comment> \<open>every exercise name occurs in at most one container\<close>
  "single_location c = list_all (\<lambda>name. holders c name \<le> 1) (concat (containers c))"

definition all_distinct :: "catalog \<Rightarrow> bool" where
  \<comment> \<open>no name occurs twice, in one container or in two\<close>
  "all_distinct c = distinct (concat (containers c))"

fun is_rename :: "catalog_op \<Rightarrow> bool" where
  "is_rename (Rename old_name new_text) = True"
| "is_rename other = False"

section \<open>The state after start-up\<close>

definition initial_app :: app where
  \<comment> \<open>the fields as \<open>__init__\<close> leaves them when no file exists yet\<close>
  "initial_app =
     \<lparr>workout_data = [], current_exercise = [], timer_running = False, elapsed_time = 0,
      metronome_running = False, metronome_bpm = 120,
      metronome_was_running_before_pause = False,
      exercises_structure = \<lparr>root = [], folders = [], info = []\<rparr>,
      exercises = [], time_label = [], total_time_label = [], data_file = None, events = []\<rparr>"

definition change_bpm_all :: "int list \<Rightarrow> app \<Rightarrow> app" where
  \<comment> \<open>a sequence of presses of the tempo buttons\<close>
  "change_bpm_all deltas s = foldl (\<lambda>s delta. change_bpm delta s) s deltas"

section \<open>Example states\<close>

definition day1 :: datetime where
  "day1 = \<lparr>year = 2026, month = 11, day = 3, hour = 21, minute = 27, second = 5,
            microsecond = 0\<rparr>"

definition day2 :: datetime where
  "day2 = \<lparr>year = 2026, month = 11, day = 4, hour = 8, minute = 0, second = 0,
            microsecond = 0\<rparr>"

definition two_day_log :: "entry list" where
  "two_day_log =
     [\<lparr>exercise = ''Scales'', time = ''00:04'', bpm = ''80'', timestamp = day1\<rparr>,
      \<lparr>exercise = ''Chords'', time = ''01:05'', bpm = ''60'', timestamp = day2\<rparr>,
      \<lparr>exercise = ''Scales'', time = ''02:00'', bpm = ''100'', timestamp = day1\<rparr>]"

definition scales_session :: app where
  \<comment> \<open>at the bpm input after five ticks on Scales, the metronome still running\<close>
  "scales_session =
     initial_app\<lparr>current_exercise := ''Scales'', elapsed_time := 5, metronome_running := True\<rparr>"

definition ladder_log :: "string \<Rightarrow> entry list" where
  \<comment> \<open>a log of one entry, for an exercise of the given name\<close>
  "ladder_log name = [\<lparr>exercise = name, time = ''00:04'', bpm = ''80'', timestamp = day1\<rparr>]"

definition three_exercises :: app where
  \<comment> \<open>a folder F, the exercise A in the root and the exercise B in F\<close>
  "three_exercises =
     run_ops [CreateFolder ''F'', AddExercise ''A'' ''Root'' [] [], AddExercise ''B'' ''F'' [] []]
       initial_app"

section \<open>Durations: formatting and parsing are inverse\<close>

lemma is_decimal_digit_char: "d < 10 \<Longrightarrow> is_decimal (digit_char d)"
  by (simp add: is_decimal_def digit_char_def)

lemma digit_value_digit_char: "d < 10 \<Longrightarrow> digit_value (digit_char d) = d"
  by (simp add: digit_value_def digit_char_def)

lemma is_decimal_zero: "is_decimal CHR ''0''"
  by (simp add: is_decimal_def)

lemma digit_value_zero: "digit_value CHR ''0'' = 0"
  by (simp add: digit_value_def)

lemma is_decimal_not_special:
  assumes "is_decimal c"
  shows "\<not> isspace c" and "c \<noteq> CHR ''-''" and "c \<noteq> CHR ''+''" and "c \<noteq> CHR '':''"
  using assms by (auto simp: is_decimal_def isspace_def)

lemma dec_decimal: "list_all is_decimal (dec n)"
proof (induction n rule: dec.induct)
  case (1 n)
  show ?case
  proof (cases "n < 10")
    case True
    then show ?thesis by (simp add: dec.simps [of n] is_decimal_digit_char)
  next
    case False
    with 1 show ?thesis by (simp add: dec.simps [of n] is_decimal_digit_char)
  qed
qed

lemma dec_nonempty: "dec n \<noteq> []"
  by (subst dec.simps) simp

lemma int_body_decimal:
  "list_all is_decimal ds \<Longrightarrow>
   int_body acc ds = Some (foldl (\<lambda>a c. a * 10 + digit_value c) acc ds)"
  by (induction acc ds rule: int_body.induct) simp_all

lemma int_digits_decimal:
  "s \<noteq> [] \<Longrightarrow> list_all is_decimal s \<Longrightarrow> int_digits s = Some (digits_value s)"
  by (cases s) (simp_all add: int_digits_def digits_value_def int_body_decimal)

lemma digits_value_dec: "digits_value (dec n) = n"
proof (induction n rule: dec.induct)
  case (1 n)
  show ?case
  proof (cases "n < 10")
    case True
    then show ?thesis by (simp add: dec.simps [of n] digits_value_def digit_value_digit_char)
  next
    case False
    with 1 have "digits_value (dec (n div 10)) = n div 10" by simp
    with False show ?thesis
      by (simp add: dec.simps [of n] digits_value_def digit_value_digit_char)
  qed
qed

lemma digits_value_zfill: "digits_value (zfill w s) = digits_value s"
proof -
  have "foldl (\<lambda>a c. a * 10 + digit_value c) 0 (replicate k CHR ''0'') = 0" for k
    by (induction k) (simp_all add: digit_value_zero)
  then show ?thesis by (simp add: zfill_def digits_value_def)
qed

lemma zfill_decimal: "list_all is_decimal s \<Longrightarrow> list_all is_decimal (zfill w s)"
  by (auto simp: zfill_def list_all_iff is_decimal_zero)

lemma zfill_nonempty: "s \<noteq> [] \<Longrightarrow> zfill w s \<noteq> []"
  by (simp add: zfill_def)

lemma strip_decimal:
  assumes "list_all is_decimal s"
  shows "strip s = s"
proof -
  have d: "dropWhile isspace t = t" if "list_all is_decimal t" for t
    using that by (cases t) (simp_all add: is_decimal_not_special)
  from assms have "list_all is_decimal (rev s)" by (simp add: list_all_iff)
  with assms show ?thesis by (simp add: strip_def d)
qed

lemma py_int_decimal:
  assumes "s \<noteq> []" and "list_all is_decimal s"
  shows "py_int s = Inr (int (digits_value s))"
proof -
  from assms obtain c cs where s: "s = c # cs" by (cases s) auto
  with assms have "is_decimal c" by simp
  then have "c \<noteq> CHR ''-''" "c \<noteq> CHR ''+''" by (simp_all add: is_decimal_not_special)
  with assms s show ?thesis
    by (simp add: py_int_def strip_decimal int_digits_decimal)
qed

lemma fmt_02d_decimal: "0 \<le> n \<Longrightarrow> list_all is_decimal (fmt_02d n)"
  by (simp add: fmt_02d_def zfill_decimal dec_decimal)

lemma py_int_fmt_02d: "0 \<le> n \<Longrightarrow> py_int (fmt_02d n) = Inr n"
  by (simp add: fmt_02d_def py_int_decimal zfill_decimal zfill_nonempty dec_decimal dec_nonempty
      digits_value_zfill digits_value_dec)

lemma fmt_02d_no_colon: "0 \<le> n \<Longrightarrow> CHR '':'' \<notin> set (fmt_02d n)"
  using fmt_02d_decimal [of n] by (auto simp: list_all_iff dest: is_decimal_not_special(4))

lemma split_on_no_sep: "sep \<notin> set s \<Longrightarrow> split_on sep s = [s]"
  by (induction s) auto

lemma split_on_append: "sep \<notin> set a \<Longrightarrow> split_on sep (a @ sep # b) = a # split_on sep b"
  by (induction a) auto

lemma hms_sum: "(s div 3600) * 3600 + ((s mod 3600) div 60) * 60 + s mod 60 = (s::int)"
proof -
  have "(s mod 3600) mod 60 = s mod 60" by (simp add: mod_mod_cancel)
  then have "((s mod 3600) div 60) * 60 + s mod 60 = s mod 3600"
    by (metis div_mult_mod_eq)
  moreover have "(s div 3600) * 3600 + s mod 3600 = s"
    by (rule div_mult_mod_eq)
  ultimately show ?thesis by linarith
qed

lemma parse_time_two:
  "split_on CHR '':'' t = [a, b] \<Longrightarrow> py_int a = Inr x \<Longrightarrow> py_int b = Inr y
   \<Longrightarrow> parse_time t = Inr (x * 60 + y)"
  by (simp add: parse_time_def)

lemma parse_time_three:
  "split_on CHR '':'' t = [a, b, c] \<Longrightarrow> py_int a = Inr x \<Longrightarrow> py_int b = Inr y
   \<Longrightarrow> py_int c = Inr z \<Longrightarrow> parse_time t = Inr (x * 3600 + y * 60 + z)"
  by (simp add: parse_time_def)

lemma parse_format_time:
  assumes "0 \<le> s"
  shows "parse_time (format_time s) = Inr s"
proof -
  let ?h = "s div 3600" and ?m = "(s mod 3600) div 60" and ?c = "s mod 60"
  from assms have nn: "0 \<le> ?h" "0 \<le> ?m" "0 \<le> ?c"
    by (simp_all only: pos_imp_zdiv_nonneg_iff pos_mod_sign zero_less_numeral)
  note ints = nn [THEN py_int_fmt_02d]
  note sum3 = hms_sum [of s]
  show ?thesis
  proof (cases "0 < ?h")
    case True
    then have f: "format_time s = fmt_02d ?h @ '':'' @ fmt_02d ?m @ '':'' @ fmt_02d ?c"
      by (simp add: format_time_def Let_def)
    have "split_on CHR '':'' (format_time s) = [fmt_02d ?h, fmt_02d ?m, fmt_02d ?c]"
      unfolding f using nn by (simp add: split_on_append split_on_no_sep fmt_02d_no_colon)
    from parse_time_three [OF this ints]
    show ?thesis by (simp only: sum3)
  next
    case False
    with nn have h0: "?h = 0" by simp
    from False have f: "format_time s = fmt_02d ?m @ '':'' @ fmt_02d ?c"
      by (simp add: format_time_def Let_def)
    have "split_on CHR '':'' (format_time s) = [fmt_02d ?m, fmt_02d ?c]"
      unfolding f using nn by (simp add: split_on_append split_on_no_sep fmt_02d_no_colon)
    moreover have "?m * 60 + ?c = s"
      using sum3 by (simp only: h0 mult_zero_left add_0)
    ultimately show ?thesis
      using parse_time_two [OF _ ints(2,3)] by (simp only:)
  qed
qed

text \<open>
  Claim C5. \<open>format_time(65)\<close> is \<open>01:05\<close>, \<open>format_time(3661)\<close> is \<open>01:01:01\<close>,
  \<open>parse_time\<close> reads them back as 65 and 3661, and parsing the formatted text of any
  number of seconds from 0 up to, not including, 24 hours gives that number back.
\<close>

theorem format_parse_time:
  "format_time 65 = ''01:05'' \<and> format_time 3661 = ''01:01:01''
   \<and> parse_time ''01:05'' = Inr 65 \<and> parse_time ''01:01:01'' = Inr 3661
   \<and> (\<forall>s. 0 \<le> s \<and> s < 24 * 3600 \<longrightarrow> parse_time (format_time s) = Inr s)"
proof -
  have "format_time 65 = ''01:05''" by code_simp
  moreover have "format_time 3661 = ''01:01:01''" by code_simp
  moreover have "parse_time ''01:05'' = Inr 65" by code_simp
  moreover have "parse_time ''01:01:01'' = Inr 3661" by code_simp
  ultimately show ?thesis by (simp add: parse_format_time)
qed

theorem format_parse_time_witness:
  "(0::int) \<le> 86399 \<and> (86399::int) < 24 * 3600 \<and> format_time 86399 = ''23:59:59''
   \<and> parse_time (format_time 86399) = Inr 86399"
proof -
  have f: "format_time 86399 = ''23:59:59''" by code_simp
  from format_parse_time
  have "0 \<le> (86399::int) \<and> (86399::int) < 24 * 3600
        \<longrightarrow> parse_time (format_time 86399) = Inr 86399"
    by blast
  with f show ?thesis by simp
qed

text \<open>
  Claim C9. \<open>format_time\<close> of minus one, the duration recorded for an entry created with
  no elapsed time, is the text \<open>59:59\<close>: the hours are minus one and are left out, the
  minutes and the seconds are 59.
\<close>

theorem format_time_minus_one:
  "format_time (- 1) = ''59:59''
   \<and> time (create_exercise_data now b (s\<lparr>elapsed_time := 0\<rparr>)) = ''59:59''"
proof -
  have "format_time (- 1) = ''59:59''" by code_simp
  then show ?thesis by (simp add: create_exercise_data_def)
qed

text \<open>
  Claim C10. A text whose split at the colons has neither two nor three fields, such as
  the empty text, \<open>45\<close> or \<open>1:2:3:4\<close>, parses to 0; no error is raised.
\<close>

theorem parse_time_other_field_count:
  "length (split_on CHR '':'' t) \<noteq> 2 \<Longrightarrow> length (split_on CHR '':'' t) \<noteq> 3
   \<Longrightarrow> parse_time t = Inr 0"
  by (simp add: parse_time_def Let_def)

theorem parse_time_other_field_count_witness:
  "length (split_on CHR '':'' '''') = 1 \<and> parse_time '''' = Inr 0
   \<and> length (split_on CHR '':'' ''45'') = 1 \<and> parse_time ''45'' = Inr 0
   \<and> length (split_on CHR '':'' ''1:2:3:4'') = 4 \<and> parse_time ''1:2:3:4'' = Inr 0"
proof -
  have a: "length (split_on CHR '':'' '''') = 1" by simp
  have b: "length (split_on CHR '':'' ''45'') = 1" by simp
  have c: "length (split_on CHR '':'' ''1:2:3:4'') = 4" by simp
  from a have "parse_time '''' = Inr 0"
    by (intro parse_time_other_field_count) simp_all
  moreover from b have "parse_time ''45'' = Inr 0"
    by (intro parse_time_other_field_count) simp_all
  moreover from c have "parse_time ''1:2:3:4'' = Inr 0"
    by (intro parse_time_other_field_count) simp_all
  ultimately show ?thesis using a b c by simp
qed

section \<open>The metronome tempo stays in range\<close>

lemma change_bpm_range:
  "30 \<le> metronome_bpm s \<and> metronome_bpm s \<le> 200 \<Longrightarrow>
   30 \<le> metronome_bpm (change_bpm delta s) \<and> metronome_bpm (change_bpm delta s) \<le> 200"
  by (simp add: change_bpm_def Let_def)

lemma change_bpm_all_range:
  "30 \<le> metronome_bpm s \<and> metronome_bpm s \<le> 200 \<Longrightarrow>
   30 \<le> metronome_bpm (change_bpm_all deltas s) \<and> metronome_bpm (change_bpm_all deltas s) \<le> 200"
  unfolding change_bpm_all_def
proof (induction deltas arbitrary: s)
  case Nil
  then show ?case by simp
next
  case (Cons delta deltas)
  from Cons.prems have "30 \<le> metronome_bpm (change_bpm delta s) \<and> metronome_bpm (change_bpm delta s) \<le> 200"
    by (rule change_bpm_range)
  then show ?case using Cons.IH [of "change_bpm delta s"] by simp
qed

text \<open>
  Claim C7. From the initial tempo of 120, after any sequence of changes by arbitrary
  integers the tempo lies between 30 and 200; every prefix of a sequence is a sequence,
  so this holds after every step. A change that would leave the range changes nothing
  and raises nothing.
\<close>

theorem change_bpm_stays_in_range:
  assumes "metronome_bpm s = 120"
  shows "30 \<le> metronome_bpm (change_bpm_all deltas s)
       \<and> metronome_bpm (change_bpm_all deltas s) \<le> 200
       \<and> (metronome_bpm (change_bpm_all deltas s) + delta < 30
            \<or> 200 < metronome_bpm (change_bpm_all deltas s) + delta
          \<longrightarrow> change_bpm delta (change_bpm_all deltas s) = change_bpm_all deltas s)"
proof -
  from assms have "30 \<le> metronome_bpm s \<and> metronome_bpm s \<le> 200" by simp
  then have "30 \<le> metronome_bpm (change_bpm_all deltas s)
      \<and> metronome_bpm (change_bpm_all deltas s) \<le> 200"
    by (rule change_bpm_all_range)
  then show ?thesis by (auto simp: change_bpm_def Let_def)
qed

theorem change_bpm_stays_in_range_witness:
  "metronome_bpm initial_app = 120
   \<and> metronome_bpm (change_bpm_all [50, 50, - 100, - 100] initial_app) = 70
   \<and> 30 \<le> metronome_bpm (change_bpm_all [50, 50, - 100, - 100] initial_app)
   \<and> metronome_bpm (change_bpm_all [50, 50, - 100, - 100] initial_app) \<le> 200
   \<and> change_bpm (- 50) (change_bpm_all [50, 50, - 100, - 100] initial_app)
       = change_bpm_all [50, 50, - 100, - 100] initial_app"
proof -
  have h: "metronome_bpm initial_app = 120" by (simp add: initial_app_def)
  have v: "metronome_bpm (change_bpm_all [50, 50, - 100, - 100] initial_app) = 70"
    by (simp add: change_bpm_all_def change_bpm_def initial_app_def Let_def)
  from change_bpm_stays_in_range [OF h, of "[50, 50, - 100, - 100]" "- 50"] h v
  show ?thesis by simp
qed

section \<open>The recorded duration\<close>







section \<open>Deleting a day\<close>

lemma remove_each_keep:
  "\<forall>w \<in> set ws. w \<noteq> x \<Longrightarrow>
   remove_each ws (x # wd) = (x # fst (remove_each ws wd), snd (remove_each ws wd))"
  by (induction ws arbitrary: wd) auto

lemma remove_each_filter:
  "remove_each (filter P wd) wd = (filter (\<lambda>d. \<not> P d) wd, Inr ())"
proof (induction wd)
  case Nil
  then show ?case by simp
next
  case (Cons x wd)
  show ?case
  proof (cases "P x")
    case True
    with Cons show ?thesis by simp
  next
    case False
    then have "\<forall>w \<in> set (filter P wd). w \<noteq> x" by auto
    then have "remove_each (filter P wd) (x # wd)
        = (x # fst (remove_each (filter P wd) wd), snd (remove_each (filter P wd) wd))"
      by (rule remove_each_keep)
    with False Cons show ?thesis by simp
  qed
qed

lemma update_total_time_display_frame:
  "workout_data (fst (update_total_time_display s)) = workout_data s
   \<and> data_file (fst (update_total_time_display s)) = data_file s"
  by (simp add: update_total_time_display_def split: sum.splits)

text \<open>
  Claim C8. For every date text, when no entry of the log falls on that day
  \<open>delete_day\<close> shows the message that no workouts were found and changes nothing else: the
  log and the file are as before and nothing is written. When some entry does and the
  user confirms, the log becomes the entries of the other days in their order and that
  log is written to the file; when the user declines, nothing changes.
\<close>

theorem delete_day_removes_exactly_that_day:
  "(filter (\<lambda>d. strftime_dBY (timestamp d) = date) (workout_data s) = [] \<longrightarrow>
      delete_day date answer s
        = (s\<lparr>events := events s @ [ShowInfo ''Information'' ''No workouts found for this day!'']\<rparr>,
           Inr ()))
   \<and> (filter (\<lambda>d. strftime_dBY (timestamp d) = date) (workout_data s) \<noteq> [] \<longrightarrow>
        workout_data (fst (delete_day date True s))
          = filter (\<lambda>d. strftime_dBY (timestamp d) \<noteq> date) (workout_data s)
        \<and> data_file (fst (delete_day date True s))
          = Some (render_data (filter (\<lambda>d. strftime_dBY (timestamp d) \<noteq> date) (workout_data s)))
        \<and> delete_day date False s = (s, Inr ()))"
proof -
  let ?P = "\<lambda>d. strftime_dBY (timestamp d) = date"
  let ?keep = "filter (\<lambda>d. strftime_dBY (timestamp d) \<noteq> date) (workout_data s)"
  let ?s1 = "save_data (s\<lparr>workout_data := ?keep\<rparr>)"
  have r: "remove_each (filter ?P (workout_data s)) (workout_data s) = (?keep, Inr ())"
    by (rule remove_each_filter)
  have u: "workout_data (fst (update_total_time_display ?s1)) = ?keep
      \<and> data_file (fst (update_total_time_display ?s1)) = Some (render_data ?keep)"
    using update_total_time_display_frame [of ?s1] by (simp add: save_data_def)
  have "filter ?P (workout_data s) \<noteq> [] \<Longrightarrow>
      workout_data (fst (delete_day date True s)) = ?keep
      \<and> data_file (fst (delete_day date True s)) = Some (render_data ?keep)"
    using u by (cases "update_total_time_display ?s1")
      (auto simp: delete_day_def Let_def r split: sum.splits)
  then show ?thesis by (simp add: delete_day_def Let_def)
qed

lemma strftime_day1: "strftime_dBY day1 = ''03 November 2026''"
  by code_simp

lemma strftime_day2: "strftime_dBY day2 = ''04 November 2026''"
  by code_simp

theorem delete_day_removes_exactly_that_day_witness:
  "workout_data (fst (delete_day ''03 November 2026'' True (initial_app\<lparr>workout_data := two_day_log\<rparr>)))
     = [\<lparr>exercise = ''Chords'', time = ''01:05'', bpm = ''60'', timestamp = day2\<rparr>]
   \<and> delete_day ''05 November 2026'' True (initial_app\<lparr>workout_data := two_day_log\<rparr>)
     = (initial_app\<lparr>workout_data := two_day_log,
          events := [ShowInfo ''Information'' ''No workouts found for this day!'']\<rparr>, Inr ())"
proof -
  let ?s = "initial_app\<lparr>workout_data := two_day_log\<rparr>"
  have a: "filter (\<lambda>d. strftime_dBY (timestamp d) = ''03 November 2026'') (workout_data ?s) \<noteq> []"
    by (simp add: two_day_log_def strftime_day1)
  have b: "filter (\<lambda>d. strftime_dBY (timestamp d) = ''05 November 2026'') (workout_data ?s) = []"
    by (simp add: two_day_log_def strftime_day1 strftime_day2)
  have k: "filter (\<lambda>d. strftime_dBY (timestamp d) \<noteq> ''03 November 2026'') (workout_data ?s)
      = [\<lparr>exercise = ''Chords'', time = ''01:05'', bpm = ''60'', timestamp = day2\<rparr>]"
    by (simp add: two_day_log_def strftime_day1 strftime_day2)
  from delete_day_removes_exactly_that_day [of "''03 November 2026''" ?s True] a k
  have 1: "workout_data (fst (delete_day ''03 November 2026'' True ?s))
     = [\<lparr>exercise = ''Chords'', time = ''01:05'', bpm = ''60'', timestamp = day2\<rparr>]"
    by simp
  from delete_day_removes_exactly_that_day [of "''05 November 2026''" ?s True] b
  have 2: "delete_day ''05 November 2026'' True ?s
     = (?s\<lparr>events := events ?s @ [ShowInfo ''Information'' ''No workouts found for this day!'']\<rparr>,
           Inr ())"
    by blast
  from 1 2 show ?thesis by (simp add: initial_app_def)
qed

section \<open>Validation of the bpm\<close>




section \<open>Saving and loading the log\<close>

lemma render_ladder_log: "render_data (ladder_log name) =
  ''# Guitar Exercises'' @ newline @ newline @ ''## 03 November 2026'' @ newline @ newline
   @ ''| Exercise Name | Time  | BPM |'' @ newline
   @ ''| ------------------- | ------ | --- |'' @ newline
   @ ''| '' @ name @ '' | 00:04 | 80 |'' @ newline @ newline"
  by (simp add: render_data_def ladder_log_def group_data_by_days_def strftime_day1 sort_dates_def
      day_block_def table_row_def)

lemma strptime_day1:
  "strptime_dBY ''03 November 2026''
     = Some \<lparr>year = 2026, month = 11, day = 3, hour = 0, minute = 0, second = 0, microsecond = 0\<rparr>"
  by (simp add: strptime_dBY_def isspace_def is_decimal_def digits_value_def digit_value_def
      month_names_def lower_def days_in_month_def is_leap_def)

lemma load_bpm_ladder:
  "load_lines now None (split_on CHR 0x0A (render_data (ladder_log ''BPM ladder''))) = []"
  by (simp add: render_ladder_log newline_def startswith_def strip_def isspace_def)

lemma load_speed_ladder:
  "load_lines now None (split_on CHR 0x0A (render_data (ladder_log ''Speed ladder'')))
     = [\<lparr>exercise = ''Speed ladder'', time = ''00:04'', bpm = ''80'',
         timestamp = \<lparr>year = 2026, month = 11, day = 3, hour = 0, minute = 0, second = 0,
                       microsecond = 0\<rparr>\<rparr>]"
  by (simp add: render_ladder_log newline_def startswith_def strip_def isspace_def strptime_day1)

text \<open>
  Claim C2 says that every entry of a saved log is found again after loading, with its
  exercise, duration, bpm and day. An entry whose exercise name contains \<open>BPM\<close> is
  written to the file and dropped by \<open>load_data\<close>, whose test for the header row skips
  every row with \<open>BPM\<close> in it; the same entry under another name comes back, at
  midnight of its day.
\<close>

theorem reload_loses_bpm_named_exercise:
  "workout_data (load_data now (save_data (initial_app\<lparr>workout_data := ladder_log ''BPM ladder''\<rparr>)))
     = []
   \<and> workout_data (load_data now (save_data (initial_app\<lparr>workout_data := ladder_log ''Speed ladder''\<rparr>)))
     = [\<lparr>exercise = ''Speed ladder'', time = ''00:04'', bpm = ''80'',
         timestamp = \<lparr>year = 2026, month = 11, day = 3, hour = 0, minute = 0, second = 0,
                       microsecond = 0\<rparr>\<rparr>]"
  by (simp add: load_data_def save_data_def load_bpm_ladder load_speed_ladder)

section \<open>The catalog\<close>

lemma three_exercises_structure:
  "exercises_structure three_exercises
     = \<lparr>root = [''A''], folders = [(''F'', [''B''])], info = [(''A'', [], []), (''B'', [], [])]\<rparr>"
  by (simp add: three_exercises_def run_ops_def initial_app_def create_folder_def add_now_def
      flatten_exercises_def strip_def isspace_def Let_def)

text \<open>
  Claim C1 says that no sequence of catalog operations puts a name into two containers.
  Renaming the exercise A of the root to B, the name of an exercise in the folder F,
  leaves B both in the root and in F: \<open>do_rename\<close> does not look for the new name in
  the catalog, as \<open>add_now\<close> does.
\<close>

theorem rename_breaks_single_location:
  "single_location (exercises_structure three_exercises)
   \<and> exercises_structure (run_ops [Rename ''A'' ''B''] three_exercises)
       = \<lparr>root = [''B''], folders = [(''F'', [''B''])], info = [(''B'', [], [])]\<rparr>
   \<and> holders (exercises_structure (run_ops [Rename ''A'' ''B''] three_exercises)) ''B'' = 2
   \<and> \<not> single_location (exercises_structure (run_ops [Rename ''A'' ''B''] three_exercises))"
proof -
  have r: "exercises_structure (run_ops [Rename ''A'' ''B''] three_exercises)
       = \<lparr>root = [''B''], folders = [(''F'', [''B''])], info = [(''B'', [], [])]\<rparr>"
    by (simp add: run_ops_def do_rename_def three_exercises_structure strip_def isspace_def
        Let_def map_values_def dict_pop_def)
  show ?thesis
    by (simp add: r three_exercises_structure single_location_def holders_def containers_def)
qed

text \<open>
  The other four operations keep every name in one place: from a catalog in which no
  name occurs twice, a sequence without a rename ends in such a catalog.
\<close>

lemma distinct_concat_holders:
  "distinct (concat xss) \<Longrightarrow> length (filter (\<lambda>items. name \<in> set items) xss) \<le> 1"
proof (induction xss)
  case Nil
  then show ?case by simp
next
  case (Cons xs xss)
  show ?case
  proof (cases "name \<in> set xs")
    case True
    with Cons.prems have "\<forall>items \<in> set xss. name \<notin> set items" by auto
    then have "filter (\<lambda>items. name \<in> set items) xss = []" by (simp add: filter_empty_conv)
    with True show ?thesis by simp
  next
    case False
    with Cons show ?thesis by simp
  qed
qed

lemma all_distinct_single_location:
  assumes "all_distinct c"
  shows "single_location c"
proof -
  from assms have "distinct (concat (containers c))" by (simp only: all_distinct_def)
  then have "length (filter (\<lambda>items. name \<in> set items) (containers c)) \<le> 1" for name
    by (rule distinct_concat_holders)
  then show ?thesis by (simp only: single_location_def holders_def list_all_iff) blast
qed

lemma map_snd_map_values: "map snd (map_values f d) = map (\<lambda>e. f (snd e)) d"
  by (simp add: map_values_def case_prod_beta)

lemma names_remove1:
  "distinct (concat (map snd fs)) \<Longrightarrow>
   distinct (concat (map (\<lambda>e. remove1 x (snd e)) fs))
   \<and> set (concat (map (\<lambda>e. remove1 x (snd e)) fs)) = set (concat (map snd fs)) - {x}"
proof (induction fs)
  case Nil
  then show ?case by simp
next
  case (Cons f fs)
  from Cons.prems have d: "distinct (snd f)" "distinct (concat (map snd fs))"
    "set (snd f) \<inter> set (concat (map snd fs)) = {}" by simp_all
  from Cons.IH [OF d(2)] have ih: "distinct (concat (map (\<lambda>e. remove1 x (snd e)) fs))"
    "set (concat (map (\<lambda>e. remove1 x (snd e)) fs)) = set (concat (map snd fs)) - {x}"
    by blast+
  have s1: "set (remove1 x (snd f)) = set (snd f) - {x}"
    using d(1) by (rule set_remove1_eq)
  have "distinct (remove1 x (snd f) @ concat (map (\<lambda>e. remove1 x (snd e)) fs))"
    using d ih s1 by (simp only: distinct_append distinct_remove1) blast
  moreover have "set (remove1 x (snd f) @ concat (map (\<lambda>e. remove1 x (snd e)) fs))
      = set (snd f @ concat (map snd fs)) - {x}"
    using ih(2) s1 by (simp only: set_append) blast
  ultimately show ?case by (simp only: list.map concat.simps)
qed

lemma names_map_values_remove1:
  "distinct (concat (map snd fs)) \<Longrightarrow>
   distinct (concat (map snd (map_values (remove1 x) fs)))
   \<and> set (concat (map snd (map_values (remove1 x) fs))) = set (concat (map snd fs)) - {x}"
  by (simp only: map_snd_map_values names_remove1)

lemma names_dict_set_append:
  "distinct (concat (map snd fs)) \<Longrightarrow> x \<notin> set (concat (map snd fs)) \<Longrightarrow>
   distinct (concat (map snd
      (dict_set k ((case map_of fs k of Some items \<Rightarrow> items | None \<Rightarrow> []) @ [x]) fs)))
   \<and> set (concat (map snd
      (dict_set k ((case map_of fs k of Some items \<Rightarrow> items | None \<Rightarrow> []) @ [x]) fs)))
     = insert x (set (concat (map snd fs)))"
proof (induction fs)
  case Nil
  then show ?case by simp
next
  case (Cons f fs)
  obtain k' v where f: "f = (k', v)" by (cases f)
  show ?case
  proof (cases "k' = k")
    case True
    with Cons.prems f show ?thesis by auto
  next
    case False
    from Cons.prems f have d: "distinct (concat (map snd fs))" "x \<notin> set (concat (map snd fs))"
      by simp_all
    from Cons.IH [OF d] Cons.prems f False show ?thesis by auto
  qed
qed

lemma create_folder_distinct:
  "all_distinct (exercises_structure s) \<Longrightarrow> all_distinct (exercises_structure (create_folder text s))"
  by (simp add: create_folder_def all_distinct_def containers_def Let_def)

lemma add_now_distinct:
  assumes "all_distinct (exercises_structure s)"
  shows "all_distinct (exercises_structure (add_now name_text folder link_text note_text s))"
proof -
  let ?c = "exercises_structure s" and ?name = "strip name_text"
  from assms have d: "distinct (root ?c)" "distinct (concat (map snd (folders ?c)))"
    "set (root ?c) \<inter> set (concat (map snd (folders ?c))) = {}"
    by (simp_all add: all_distinct_def containers_def)
  show ?thesis
  proof (cases "?name = [] \<or> ?name \<in> set (flatten_exercises s)")
    case True
    with assms show ?thesis by (auto simp: add_now_def Let_def)
  next
    case False
    then have n: "?name \<notin> set (root ?c)" "?name \<notin> set (concat (map snd (folders ?c)))"
      by (simp_all add: flatten_exercises_def)
    note fresh = False
    show ?thesis
    proof (cases "folder = ''Root''")
      case True
      with fresh d n show ?thesis
        by (simp add: add_now_def Let_def all_distinct_def containers_def)
    next
      case False
      with names_dict_set_append [OF d(2) n(2), of folder] fresh d n show ?thesis
        by (simp add: add_now_def Let_def all_distinct_def containers_def)
    qed
  qed
qed

lemma move_confirm_distinct:
  assumes "all_distinct (exercises_structure s)"
  shows "all_distinct (exercises_structure (move_confirm text folder s))"
proof -
  let ?c = "exercises_structure s"
  let ?fs = "map_values (remove1 text) (folders ?c)"
  from assms have d: "distinct (root ?c)" "distinct (concat (map snd (folders ?c)))"
    "set (root ?c) \<inter> set (concat (map snd (folders ?c))) = {}"
    by (simp_all add: all_distinct_def containers_def)
  from names_map_values_remove1 [OF d(2), of "text"]
  have r: "distinct (concat (map snd ?fs))"
    "set (concat (map snd ?fs)) = set (concat (map snd (folders ?c))) - {text}"
    by simp_all
  then have t: "text \<notin> set (concat (map snd ?fs))" by simp
  have "text \<notin> set (case map_of ?fs folder of Some items \<Rightarrow> items | None \<Rightarrow> [])"
  proof (cases "map_of ?fs folder")
    case None
    then show ?thesis by simp
  next
    case (Some items)
    then have "(folder, items) \<in> set ?fs" by (rule map_of_SomeD)
    then have "set items \<subseteq> set (concat (map snd ?fs))" by force
    with t Some show ?thesis by auto
  qed
  with names_dict_set_append [OF r(1) t, of folder] d r show ?thesis
    by (auto simp: move_confirm_def Let_def all_distinct_def containers_def set_remove1_eq)
qed

lemma delete_exercise_distinct:
  assumes "all_distinct (exercises_structure s)"
  shows "all_distinct (exercises_structure (delete_exercise ex answer s))"
proof -
  let ?c = "exercises_structure s"
  from assms have d: "distinct (root ?c)" "distinct (concat (map snd (folders ?c)))"
    "set (root ?c) \<inter> set (concat (map snd (folders ?c))) = {}"
    by (simp_all add: all_distinct_def containers_def)
  from names_map_values_remove1 [OF d(2), of ex] assms d show ?thesis
    by (auto simp: delete_exercise_def Let_def all_distinct_def containers_def set_remove1_eq)
qed

lemma apply_op_distinct:
  "all_distinct (exercises_structure s) \<Longrightarrow> \<not> is_rename op \<Longrightarrow>
   all_distinct (exercises_structure (apply_op s op))"
  by (cases op)
    (simp_all add: create_folder_distinct add_now_distinct move_confirm_distinct
      delete_exercise_distinct)

lemma run_ops_without_rename:
  "all_distinct (exercises_structure s) \<Longrightarrow> \<forall>op \<in> set ops. \<not> is_rename op \<Longrightarrow>
   single_location (exercises_structure (run_ops ops s))"
proof -
  have "all_distinct (exercises_structure s) \<Longrightarrow> \<forall>op \<in> set ops. \<not> is_rename op \<Longrightarrow>
      all_distinct (exercises_structure (foldl apply_op s ops))"
    by (induction ops arbitrary: s) (simp_all add: apply_op_distinct)
  then show "all_distinct (exercises_structure s) \<Longrightarrow> \<forall>op \<in> set ops. \<not> is_rename op \<Longrightarrow>
      single_location (exercises_structure (run_ops ops s))"
    by (simp add: run_ops_def all_distinct_single_location)
qed

section \<open>Statistics\<close>

text \<open>
  Claim C6 says that the best bpm is the greatest numeric bpm of the matching entries,
  for every log. The bpm text of one superscript two passes \<open>isdigit\<close>, so finishing
  records it; \<open>get_best_bpm\<close> then calls \<open>int()\<close> on it outside any \<open>try\<close> and raises
  \<open>ValueError\<close> instead of returning a number.
\<close>

theorem best_bpm_raises_on_superscript_digit:
  "isdigit [CHR 0xB2]
   \<and> snd (save_workout_data day1 [CHR 0xB2] scales_session) = Inr True
   \<and> workout_data (fst (save_workout_data day1 [CHR 0xB2] scales_session))
       = [\<lparr>exercise = ''Scales'', time = ''00:04'', bpm = [CHR 0xB2], timestamp = day1\<rparr>]
   \<and> get_best_bpm ''Scales'' (fst (save_workout_data day1 [CHR 0xB2] scales_session))
       = Inl ValueError"
proof -
  have d: "isdigit [CHR 0xB2]" by (simp add: isdigit_def char_isdigit_def)
  have f: "format_time 4 = ''00:04''" by code_simp
  have p: "parse_time ''00:04'' = Inr 4" by code_simp
  have i: "py_int [CHR 0xB2] = Inl ValueError"
    by (simp add: py_int_def strip_def isspace_def int_digits_def is_decimal_def)
  have s: "save_workout_data day1 [CHR 0xB2] scales_session
    = (scales_session\<lparr>metronome_running := False,
         workout_data := [\<lparr>exercise = ''Scales'', time = ''00:04'', bpm = [CHR 0xB2], timestamp = day1\<rparr>],
         data_file := Some (render_data [\<lparr>exercise = ''Scales'', time = ''00:04'', bpm = [CHR 0xB2], timestamp = day1\<rparr>]),
         events := [DataFileWritten], total_time_label := ''Total Time: 00:04''\<rparr>, Inr True)"
    using d f p by (simp add: save_workout_data_def scales_session_def initial_app_def Let_def
        stop_metronome_def create_exercise_data_def save_data_def update_total_time_display_def)
  show ?thesis using d i by (simp add: s get_best_bpm_def)
qed

lemma numeric_bpms_Cons:
  "numeric_bpms name (d # wd) =
     (if exercise d = name \<and> isdigit (bpm d)
      then (case py_int (bpm d) of Inr v \<Rightarrow> v # numeric_bpms name wd | Inl e \<Rightarrow> numeric_bpms name wd)
      else numeric_bpms name wd)"
  by (simp add: numeric_bpms_def map_filter_simps split: sum.splits)

lemma numeric_bpms_Nil: "numeric_bpms name [] = []"
  by (simp add: numeric_bpms_def map_filter_simps)

lemma isdigit_decimal_py_int:
  "isdigit b \<Longrightarrow> list_all is_decimal b \<Longrightarrow> py_int b = Inr (int (digits_value b))"
  by (rule py_int_decimal) (simp_all add: isdigit_def)

lemma best_loop_fold:
  "int_readable wd \<Longrightarrow> best_loop name wd best = Inr (fold max (numeric_bpms name wd) best)"
proof (induction wd arbitrary: best)
  case Nil
  then show ?case by (simp add: numeric_bpms_Nil)
next
  case (Cons d wd)
  from Cons.prems have r: "int_readable wd"
    and dd: "isdigit (bpm d) \<Longrightarrow> list_all is_decimal (bpm d)"
    by (simp_all add: int_readable_def)
  show ?case
  proof (cases "exercise d = name \<and> isdigit (bpm d)")
    case True
    with dd have p: "py_int (bpm d) = Inr (int (digits_value (bpm d)))"
      by (simp add: isdigit_decimal_py_int)
    with True Cons.IH [OF r] show ?thesis
      by (simp add: numeric_bpms_Cons max.commute)
  next
    case False
    with Cons.IH [OF r] show ?thesis by (auto simp: numeric_bpms_Cons)
  qed
qed

lemma get_best_bpm_max:
  "int_readable (workout_data s) \<Longrightarrow>
   get_best_bpm name s = Inr (Max (set (0 # numeric_bpms name (workout_data s))))"
  by (simp only: get_best_bpm_def best_loop_fold Max.set_eq_fold)

lemma stats_loop_sums:
  "stats_loop ds (ts, tb, c) = Inr (ts', tb', c') \<Longrightarrow> \<forall>d \<in> set ds. exercise d = name \<Longrightarrow>
   tb' = tb + sum_list (numeric_bpms name ds) \<and> c' = c + int (length (numeric_bpms name ds))"
proof (induction ds arbitrary: ts tb c)
  case Nil
  then show ?case by (simp add: numeric_bpms_Nil)
next
  case (Cons d ds)
  from Cons.prems(2) have n: "exercise d = name" "\<forall>d \<in> set ds. exercise d = name" by simp_all
  from Cons.prems(1) obtain t where t: "parse_time (time d) = Inr t"
    by (cases "parse_time (time d)") simp_all
  show ?case
  proof (cases "isdigit (bpm d)")
    case False
    with Cons.prems(1) t have "stats_loop ds (ts + t, tb, c) = Inr (ts', tb', c')" by simp
    from Cons.IH [OF this n(2)] False show ?thesis by (simp add: numeric_bpms_Cons)
  next
    case True
    show ?thesis
    proof (cases "py_int (bpm d)")
      case (Inl e)
      with Cons.prems(1) t True have "stats_loop ds (ts + t, tb, c) = Inr (ts', tb', c')" by simp
      from Cons.IH [OF this n(2)] True Inl show ?thesis by (simp add: numeric_bpms_Cons)
    next
      case (Inr v)
      with Cons.prems(1) t True have "stats_loop ds (ts + t, tb + v, c + 1) = Inr (ts', tb', c')"
        by simp
      from Cons.IH [OF this n(2)] True Inr n(1) show ?thesis by (simp add: numeric_bpms_Cons)
    qed
  qed
qed

lemma numeric_bpms_filter:
  "numeric_bpms name (filter (\<lambda>d. exercise d = name) wd) = numeric_bpms name wd"
  by (induction wd) (auto simp: numeric_bpms_Cons numeric_bpms_Nil split: sum.splits)

lemma get_exercise_stats_avg:
  assumes "get_exercise_stats name s = Inr st"
  shows "avg_bpm st =
     (if numeric_bpms name (workout_data s) = [] then 0
      else sum_list (numeric_bpms name (workout_data s))
           div int (length (numeric_bpms name (workout_data s))))
     \<and> total_sessions st = length (filter (\<lambda>d. exercise d = name) (workout_data s))"
proof (cases "filter (\<lambda>d. exercise d = name) (workout_data s) = []")
  case True
  then have "numeric_bpms name (filter (\<lambda>d. exercise d = name) (workout_data s)) = []"
    by (simp add: numeric_bpms_Nil)
  then have "numeric_bpms name (workout_data s) = []" by (simp add: numeric_bpms_filter)
  with True assms show ?thesis by (auto simp: get_exercise_stats_def Let_def)
next
  case False
  let ?ds = "filter (\<lambda>d. exercise d = name) (workout_data s)"
  from False assms obtain ts tb c where l: "stats_loop ?ds (0, 0, 0) = Inr (ts, tb, c)"
    by (auto simp: get_exercise_stats_def Let_def split: sum.splits prod.splits)
  have "\<forall>d \<in> set ?ds. exercise d = name" by simp
  from stats_loop_sums [OF l this]
  have "tb = sum_list (numeric_bpms name (workout_data s))"
    and "c = int (length (numeric_bpms name (workout_data s)))"
    by (simp_all add: numeric_bpms_filter)
  with False assms l show ?thesis by (auto simp: get_exercise_stats_def Let_def)
qed

lemma scales_stats:
  "get_best_bpm ''Scales'' (initial_app\<lparr>workout_data := two_day_log\<rparr>) = Inr 100
   \<and> get_exercise_stats ''Scales'' (initial_app\<lparr>workout_data := two_day_log\<rparr>)
     = Inr \<lparr>total_sessions = 2, total_time_seconds = 124, total_time_formatted = ''02:04'',
            avg_bpm = 90\<rparr>"
  by code_simp

end
